theory Spec2Isabelle
  imports Complex_Main "HOL-Library.AList"
begin

section \<open>AuraLink backend: shared data\<close>

text \<open>
  The repository holds two variants of the backend service:
  \<^item> \<^verbatim>\<open>backend/main.py\<close>: a bus-driven handler (\<^verbatim>\<open>process_sensor_data(payload_str)\<close>) that
    calls the text backend three times in sequence and publishes each result;
  \<^item> \<^verbatim>\<open>backend/main_api.py\<close>: an HTTP endpoint (\<^verbatim>\<open>POST /data\<close>) that gathers the three calls
    and publishes all three results, plus a list of live viewers and \<^verbatim>\<open>broadcast_message\<close>.
  Both files use the same names for their functions; the definitions translated from
  \<^verbatim>\<open>main_api.py\<close> carry the prefix \<open>api_\<close>.

  Strings are ASCII \<open>char\<close> lists. The value returned by \<^verbatim>\<open>json.loads\<close> and the values of a
  payload dictionary are JSON values; a dictionary is an association list in insertion
  order with unique keys.
\<close>

datatype json =
    JNull
  | JBool bool
  | JInt int
  | JFloat real
  | JStr string
  | JArr "json list"
  | JObj "(string \<times> json) list"

datatype py_error = JSONDecodeError | AttributeError | IndexError | CallError

text \<open>MQTT topics (the same four strings in both files).\<close>

definition TOPIC_SENSOR_DATA :: string where
  "TOPIC_SENSOR_DATA = ''auralink/sensor/data''"

definition TOPIC_DISPLAY_QUOTE :: string where
  "TOPIC_DISPLAY_QUOTE = ''auralink/display/quote''"

definition TOPIC_DISPLAY_SUMMARY :: string where
  "TOPIC_DISPLAY_SUMMARY = ''auralink/display/summary''"

definition TOPIC_URGENCY_LED :: string where
  "TOPIC_URGENCY_LED = ''auralink/urgency/led''"

definition TOPIC_QUOTE :: string where
  "TOPIC_QUOTE = ''auralink/display/quote''"

definition TOPIC_SUMMARY :: string where
  "TOPIC_SUMMARY = ''auralink/display/summary''"

definition TOPIC_URGENCY :: string where
  "TOPIC_URGENCY = ''auralink/urgency/led''"

subsection \<open>Python string operations\<close>

text \<open>\<^verbatim>\<open>str.strip()\<close>: leading and trailing ASCII whitespace is removed
  (tab, line feed, vertical tab, form feed, carriage return, the four separators
  0x1C to 0x1F, and the space). Text is ASCII here: the whitespace code points beyond
  ASCII that Python also strips (such as U+0085 and U+00A0) are outside the model.\<close>

definition is_space :: "char \<Rightarrow> bool" where
  "is_space c = (c \<in> set [CHR 0x09, CHR 0x0A, CHR 0x0B, CHR 0x0C, CHR 0x0D,
                           CHR 0x1C, CHR 0x1D, CHR 0x1E, CHR 0x1F, CHR 0x20])"

definition strip :: "string \<Rightarrow> string" where
  "strip s = rev (dropWhile is_space (rev (dropWhile is_space s)))"

text \<open>\<^verbatim>\<open>str.upper()\<close> on ASCII text: the 26 lower-case letters are replaced.\<close>

definition to_upper :: "char \<Rightarrow> char" where
  "to_upper c =
     (case map_of (zip ''abcdefghijklmnopqrstuvwxyz'' ''ABCDEFGHIJKLMNOPQRSTUVWXYZ'') c of
        Some u \<Rightarrow> u
      | None \<Rightarrow> c)"

definition upper :: "string \<Rightarrow> string" where
  "upper s = map to_upper s"

subsection \<open>The text backend\<close>

text \<open>
  The generative-text service is outside the program. One call either raises inside the
  caller (no package, no key, transport or authentication error, a response of unexpected
  shape, a content that is not a string) or yields the content string of the first
  choice. The prompt of each call is a fixed template around its parameters; the model
  keeps the kind of the call and the parameters, and a backend is any function from
  them (and from \<^verbatim>\<open>max_tokens\<close>, where the source passes it) to an outcome.
\<close>

datatype backend_result = Raised | Content string

datatype 'n request =
    QuotePrompt 'n 'n
  | SummaryPrompt string
  | UrgencyPrompt string

section \<open>The bus-driven service (main.py)\<close>

subsection \<open>Mock email service\<close>

record email =
  sender :: string
  subject :: string
  body :: string

definition mock_emails :: "email list" where
  "mock_emails =
    [\<lparr>sender = ''boss@work.com'',
      subject = ''Urgent: Project Deadline Moved Up'',
      body = ''Hi team, please be advised that the deadline for the Q3 report has been moved to this Friday. All hands on deck to get this finalized. I need the preliminary draft by EOD tomorrow. Thanks.''\<rparr>,
     \<lparr>sender = ''newsletter@tech.io'',
      subject = ''This Week in AI'',
      body = ''Explore the latest advancements in generative models, a deep dive into reinforcement learning, and our predictions for the next wave of AI startups. Plus, a new dataset for computer vision enthusiasts has just been released.''\<rparr>,
     \<lparr>sender = ''mom@family.com'',
      subject = ''Dinner this weekend?'',
      body = ''Hey sweetie, hope you're having a good week. I was wondering if you're free to come over for dinner on Saturday evening? Let me know if you can make it. Love, Mom.''\<rparr>]"

text \<open>The module-level cursor \<^verbatim>\<open>email_index = 0\<close>.\<close>

definition email_index_init :: nat where
  "email_index_init = 0"

definition format_email :: "email \<Rightarrow> string" where
  "format_email e =
     ''From: '' @ sender e @ [CHR 0x0A] @ ''Subject: '' @ subject e @ [CHR 0x0A, CHR 0x0A] @ body e"

text \<open>\<^verbatim>\<open>get_latest_email()\<close> reads the list at the cursor (an index outside the list raises
  \<^verbatim>\<open>IndexError\<close>) and advances the cursor modulo the length. The cursor is passed in and
  the new one returned.\<close>

definition get_latest_email :: "nat \<Rightarrow> py_error + (string \<times> nat)" where
  "get_latest_email email_index =
     (if email_index < length mock_emails
      then Inr (format_email (mock_emails ! email_index),
                (email_index + 1) mod length mock_emails)
      else Inl IndexError)"

subsection \<open>Backend calls\<close>

type_synonym backend = "json request \<Rightarrow> nat \<Rightarrow> backend_result"

text \<open>\<^verbatim>\<open>call_openai_api\<close> catches every exception and returns \<^verbatim>\<open>None\<close>.\<close>

definition call_openai_api :: "backend \<Rightarrow> json request \<Rightarrow> nat \<Rightarrow> string option" where
  "call_openai_api backend prompt max_tokens =
     (case backend prompt max_tokens of
        Raised \<Rightarrow> None
      | Content s \<Rightarrow> Some (strip s))"

definition generate_literary_quote :: "backend \<Rightarrow> json \<Rightarrow> json \<Rightarrow> string option" where
  "generate_literary_quote backend temp humidity =
     call_openai_api backend (QuotePrompt temp humidity) 60"

definition summarize_email :: "backend \<Rightarrow> string \<Rightarrow> string option" where
  "summarize_email backend email_content =
     call_openai_api backend (SummaryPrompt email_content) 60"

definition analyze_email_urgency :: "backend \<Rightarrow> string \<Rightarrow> string" where
  "analyze_email_urgency backend email_content =
     (let urgency = call_openai_api backend (UrgencyPrompt email_content) 5 in
      case urgency of
        None \<Rightarrow> ''LOW''
      | Some u \<Rightarrow>
          if u \<noteq> [] \<and> upper u \<in> set [''LOW'', ''MEDIUM'', ''HIGH'']
          then upper u
          else ''LOW'')"

subsection \<open>Handling one inbound message\<close>

text \<open>\<^verbatim>\<open>data.get(key)\<close>: only a dictionary has the method; on a dictionary a missing key
  gives \<^verbatim>\<open>None\<close>.\<close>

fun dict_get :: "json \<Rightarrow> string \<Rightarrow> py_error + json" where
  "dict_get (JObj kvs) k = (case map_of kvs k of None \<Rightarrow> Inr JNull | Some v \<Rightarrow> Inr v)"
| "dict_get _ k = Inl AttributeError"

text \<open>
  The \<^verbatim>\<open>try\<close> block of \<^verbatim>\<open>process_sensor_data\<close>. Its first argument after the backend
  is the outcome of \<^verbatim>\<open>json.loads(payload_str)\<close>: \<open>None\<close> when the library raises
  \<^verbatim>\<open>JSONDecodeError\<close>. The result is the exception that left the block (if any), the
  list of \<^verbatim>\<open>client.publish(topic, payload)\<close> calls made, in order, and the cursor.
\<close>

definition process_try ::
  "backend \<Rightarrow> json option \<Rightarrow> nat \<Rightarrow> py_error option \<times> (string \<times> string) list \<times> nat" where
  "process_try backend loaded email_index =
     (case loaded of
        None \<Rightarrow> (Some JSONDecodeError, [], email_index)
      | Some data \<Rightarrow>
         (case dict_get data ''temperature'' of
            Inl e \<Rightarrow> (Some e, [], email_index)
          | Inr temp \<Rightarrow>
             (case dict_get data ''humidity'' of
                Inl e \<Rightarrow> (Some e, [], email_index)
              | Inr humidity \<Rightarrow>
                 if temp = JNull \<or> humidity = JNull then (None, [], email_index)
                 else
                   let quote = generate_literary_quote backend temp humidity;
                       pub1 = (case quote of
                                 Some q \<Rightarrow> if q \<noteq> [] then [(TOPIC_DISPLAY_QUOTE, q)] else []
                               | None \<Rightarrow> [])
                   in
                   (case get_latest_email email_index of
                      Inl e \<Rightarrow> (Some e, pub1, email_index)
                    | Inr (email_content, email_index') \<Rightarrow>
                       let summary = summarize_email backend email_content;
                           urgency = analyze_email_urgency backend email_content;
                           pub2 = (case summary of
                                     Some s \<Rightarrow>
                                       if s \<noteq> [] then [(TOPIC_DISPLAY_SUMMARY, s)] else []
                                   | None \<Rightarrow> []);
                           pub3 = (if urgency \<noteq> [] then [(TOPIC_URGENCY_LED, urgency)] else [])
                       in (None, pub1 @ pub2 @ pub3, email_index')))))"

text \<open>
  \<^verbatim>\<open>process_sensor_data\<close>: both \<^verbatim>\<open>except\<close> clauses print and fall through, so the
  exception of the block is dropped. The first component is the exception that reaches
  the caller.
\<close>

definition process_sensor_data ::
  "backend \<Rightarrow> json option \<Rightarrow> nat \<Rightarrow> py_error option \<times> (string \<times> string) list \<times> nat" where
  "process_sensor_data backend loaded email_index =
     (case process_try backend loaded email_index of
        (Some JSONDecodeError, pubs, i) \<Rightarrow> (None, pubs, i)
      | (Some e, pubs, i) \<Rightarrow> (None, pubs, i)
      | (None, pubs, i) \<Rightarrow> (None, pubs, i))"

section \<open>The HTTP service (main_api.py)\<close>

text \<open>The request body after validation by the framework: the pydantic model
  \<^verbatim>\<open>SensorData\<close>. The handler only runs on a body that has this shape.\<close>

record SensorData =
  temperature :: real
  humidity :: real
  light_percent :: int
  nox_percent :: int

subsection \<open>Mock emails\<close>

definition MOCK_EMAILS :: "string list" where
  "MOCK_EMAILS =
    [''Urgent: Server downtime detected! Immediate action required for system recovery.'',
     ''Weekly team meeting tomorrow at 10 AM. Please prepare your progress updates.'',
     ''New feature release scheduled for next week. Testing feedback needed.'',
     ''Holiday party planning - Looking for volunteers to help organize.'']"

definition current_email_index_init :: nat where
  "current_email_index_init = 0"

definition api_get_latest_email :: "nat \<Rightarrow> py_error + (string \<times> nat)" where
  "api_get_latest_email current_email_index =
     (if current_email_index < length MOCK_EMAILS
      then Inr (MOCK_EMAILS ! current_email_index,
                (current_email_index + 1) mod length MOCK_EMAILS)
      else Inl IndexError)"

subsection \<open>Backend calls\<close>

text \<open>The three coroutines post to the service and return the stripped content of the
  first choice; nothing is caught, so a failing call raises (\<open>Inl CallError\<close>).\<close>

type_synonym api_backend = "real request \<Rightarrow> backend_result"

definition api_call :: "api_backend \<Rightarrow> real request \<Rightarrow> py_error + string" where
  "api_call backend prompt =
     (case backend prompt of
        Raised \<Rightarrow> Inl CallError
      | Content s \<Rightarrow> Inr (strip s))"

definition api_generate_literary_quote :: "api_backend \<Rightarrow> real \<Rightarrow> real \<Rightarrow> py_error + string" where
  "api_generate_literary_quote backend temp humidity' =
     api_call backend (QuotePrompt temp humidity')"

definition api_summarize_email :: "api_backend \<Rightarrow> string \<Rightarrow> py_error + string" where
  "api_summarize_email backend email_content = api_call backend (SummaryPrompt email_content)"

definition api_analyze_email_urgency :: "api_backend \<Rightarrow> string \<Rightarrow> py_error + string" where
  "api_analyze_email_urgency backend email_content =
     api_call backend (UrgencyPrompt email_content)"

text \<open>\<^verbatim>\<open>asyncio.gather\<close> of three awaitables without \<^verbatim>\<open>return_exceptions\<close>: the tuple of
  results when all three return, the exception when one raises.\<close>

definition gather ::
  "py_error + 'a \<Rightarrow> py_error + 'b \<Rightarrow> py_error + 'c \<Rightarrow> py_error + ('a \<times> 'b \<times> 'c)" where
  "gather a b c =
     (case a of
        Inl e \<Rightarrow> Inl e
      | Inr x \<Rightarrow>
         (case b of
            Inl e \<Rightarrow> Inl e
          | Inr y \<Rightarrow>
             (case c of
                Inl e \<Rightarrow> Inl e
              | Inr z \<Rightarrow> Inr (x, y, z))))"

subsection \<open>Service state\<close>

text \<open>
  Viewers (WebSocket connections) are identified by numbers. The state holds the
  module-level list of connections and the email cursor, the log of
  \<^verbatim>\<open>mqtt_client.publish(topic, payload)\<close> calls and the log of messages delivered to
  viewers by \<^verbatim>\<open>send_json\<close>.
\<close>

type_synonym message = "(string \<times> json) list"

record api_state =
  active_connections :: "nat list"
  current_email_index :: nat
  mqtt_published :: "(string \<times> string) list"
  ws_sent :: "(nat \<times> message) list"

subsection \<open>Broadcast to viewers\<close>

text \<open>\<^verbatim>\<open>payload.get(key, default)\<close>.\<close>

definition payload_get :: "(string \<times> json) list \<Rightarrow> string \<Rightarrow> json \<Rightarrow> json" where
  "payload_get payload k d = (case map_of payload k of None \<Rightarrow> d | Some v \<Rightarrow> v)"

text \<open>The message dictionary built from the topic. For the sensor topic the payload's
  entries are merged after the type entry, in order, a later entry replacing an earlier
  one with the same key. An unknown topic leaves the message empty.\<close>

definition build_message :: "string \<Rightarrow> (string \<times> json) list \<Rightarrow> message" where
  "build_message topic payload =
     (if topic = TOPIC_SENSOR_DATA then
        fold (\<lambda>(k, v). AList.update k v) payload [(''type'', JStr ''sensor_data'')]
      else if topic = TOPIC_QUOTE then
        [(''type'', JStr ''display_message''),
         (''quote'', payload_get payload ''quote'' (JStr [])),
         (''summary'', JStr [])]
      else if topic = TOPIC_SUMMARY then
        [(''type'', JStr ''display_message''),
         (''quote'', JStr []),
         (''summary'', payload_get payload ''summary'' (JStr []))]
      else if topic = TOPIC_URGENCY then
        [(''type'', JStr ''urgency''),
         (''level'', payload_get payload ''level'' (JStr ''LOW''))]
      else [])"

text \<open>
  The loop \<^verbatim>\<open>for connection in active_connections\<close>, with the list changed inside the
  loop: the list iterator keeps a position \<open>i\<close>, yields the element at \<open>i\<close> of the list
  as it is now, and stops when \<open>i\<close> reaches the current length. \<open>send_ok\<close> tells for
  each viewer whether its \<^verbatim>\<open>send_json\<close> returns; a raising send removes the first
  occurrence of that connection from the list.
\<close>

function send_loop ::
  "(nat \<Rightarrow> bool) \<Rightarrow> message \<Rightarrow> nat \<Rightarrow> nat list \<Rightarrow> (nat \<times> message) list
     \<Rightarrow> nat list \<times> (nat \<times> message) list" where
  "send_loop send_ok msg i conns sent =
     (if i < length conns then
        (if send_ok (conns ! i)
         then send_loop send_ok msg (i + 1) conns (sent @ [(conns ! i, msg)])
         else send_loop send_ok msg (i + 1) (remove1 (conns ! i) conns) sent)
      else (conns, sent))"
  by pat_completeness auto
termination
  by (relation "measure (\<lambda>(send_ok, msg, i, conns, sent). length conns - i)")
     (auto simp: length_remove1)

definition broadcast_message ::
  "(nat \<Rightarrow> bool) \<Rightarrow> string \<Rightarrow> (string \<times> json) list \<Rightarrow> api_state \<Rightarrow> api_state" where
  "broadcast_message send_ok topic payload st =
     (if active_connections st = [] then st
      else
        let msg = build_message topic payload in
        if msg \<noteq> [] then
          (case send_loop send_ok msg 0 (active_connections st) (ws_sent st) of
             (conns, sent) \<Rightarrow> st\<lparr>active_connections := conns, ws_sent := sent\<rparr>)
        else st)"

subsection \<open>The endpoint\<close>

datatype http_response = HTTP_202_ACCEPTED string | HTTP_500_INTERNAL_SERVER_ERROR

definition mqtt_publish :: "string \<Rightarrow> string \<Rightarrow> api_state \<Rightarrow> api_state" where
  "mqtt_publish topic payload st = st\<lparr>mqtt_published := mqtt_published st @ [(topic, payload)]\<rparr>"

text \<open>
  \<^verbatim>\<open>POST /data\<close>. Any exception inside the \<^verbatim>\<open>try\<close> block becomes an
  \<^verbatim>\<open>HTTPException\<close> with status 500 (its detail, the text of the exception, is not
  modelled). The cursor has advanced by then.
\<close>

definition api_process_sensor_data ::
  "api_backend \<Rightarrow> SensorData \<Rightarrow> api_state \<Rightarrow> http_response \<times> api_state" where
  "api_process_sensor_data backend data st =
     (case api_get_latest_email (current_email_index st) of
        Inl e \<Rightarrow> (HTTP_500_INTERNAL_SERVER_ERROR, st)
      | Inr (email, i') \<Rightarrow>
         let st1 = st\<lparr>current_email_index := i'\<rparr> in
         (case gather (api_generate_literary_quote backend (temperature data) (humidity data))
                      (api_summarize_email backend email)
                      (api_analyze_email_urgency backend email) of
            Inl e \<Rightarrow> (HTTP_500_INTERNAL_SERVER_ERROR, st1)
          | Inr (quote, summary, urgency) \<Rightarrow>
             (HTTP_202_ACCEPTED ''Data processed successfully'',
              mqtt_publish TOPIC_URGENCY urgency
                (mqtt_publish TOPIC_SUMMARY summary
                  (mqtt_publish TOPIC_QUOTE quote st1)))))"

section \<open>Successive calls of the email source\<close>

text \<open>\<open>n\<close> calls of \<^verbatim>\<open>get_latest_email()\<close> one after the other, from a given cursor: the
  messages returned, in the order of the calls, and the cursor left behind. An exception
  in one call ends the sequence.\<close>

fun fetch_emails :: "nat \<Rightarrow> nat \<Rightarrow> py_error + (string list \<times> nat)" where
  "fetch_emails 0 i = Inr ([], i)"
| "fetch_emails (Suc n) i =
     (case get_latest_email i of
        Inl e \<Rightarrow> Inl e
      | Inr (m, i') \<Rightarrow>
         (case fetch_emails n i' of
            Inl e \<Rightarrow> Inl e
          | Inr (ms, j) \<Rightarrow> Inr (m # ms, j)))"

fun api_fetch_emails :: "nat \<Rightarrow> nat \<Rightarrow> py_error + (string list \<times> nat)" where
  "api_fetch_emails 0 i = Inr ([], i)"
| "api_fetch_emails (Suc n) i =
     (case api_get_latest_email i of
        Inl e \<Rightarrow> Inl e
      | Inr (m, i') \<Rightarrow>
         (case api_fetch_emails n i' of
            Inl e \<Rightarrow> Inl e
          | Inr (ms, j) \<Rightarrow> Inr (m # ms, j)))"

section \<open>Stand-ins for the backend and the viewers\<close>

text \<open>
  Concrete scenarios need a concrete text backend and concrete viewers. These are
  stand-ins for the external service, of the kind a test would inject: a backend that
  gives the same outcome to every call, one that answers the quote prompt and raises on
  the two email prompts, a viewer set in which one send raises, and one in which none does.
\<close>

definition stub_always :: "backend_result \<Rightarrow> backend" where
  "stub_always r prompt max_tokens = r"

fun stub_quote_only :: "string \<Rightarrow> backend" where
  "stub_quote_only s (QuotePrompt t h) max_tokens = Content s"
| "stub_quote_only s _ max_tokens = Raised"

definition api_stub_always :: "backend_result \<Rightarrow> api_backend" where
  "api_stub_always r prompt = r"

fun api_stub_quote_only :: "string \<Rightarrow> api_backend" where
  "api_stub_quote_only s (QuotePrompt t h) = Content s"
| "api_stub_quote_only s _ = Raised"

definition send_ok_except :: "nat \<Rightarrow> nat \<Rightarrow> bool" where
  "send_ok_except bad viewer = (viewer \<noteq> bad)"

definition send_ok_all :: "nat \<Rightarrow> bool" where
  "send_ok_all viewer = True"

section \<open>The email source: cursor and cyclic order\<close>

subsection \<open>Arithmetic of a cyclic cursor\<close>

lemma mod_complement: "0 < m \<Longrightarrow> (i + (m - i mod m)) mod (m::nat) = 0"
proof -
  assume m: "0 < m"
  then have "i mod m \<le> m" by (simp add: less_imp_le)
  then have "i mod m + (m - i mod m) = m" by simp
  moreover have "(i + (m - i mod m)) mod m = (i mod m + (m - i mod m)) mod m"
    by (simp add: mod_add_left_eq)
  ultimately show ?thesis by simp
qed

lemma cyc_iff:
  assumes "j < (m::nat)"
  shows "((i + n) mod m = j) \<longleftrightarrow> (n mod m = (j + (m - i mod m)) mod m)"
proof
  have m: "0 < m" using assms by simp
  assume h: "(i + n) mod m = j"
  have "(j + (m - i mod m)) mod m = ((i + n) mod m + (m - i mod m)) mod m"
    using h by simp
  also have "\<dots> = ((i + n) + (m - i mod m)) mod m"
    by (rule mod_add_left_eq)
  also have "\<dots> = (n + (i + (m - i mod m))) mod m"
    by (simp only: ac_simps)
  also have "\<dots> = (n mod m + (i + (m - i mod m)) mod m) mod m"
    by (simp only: mod_add_eq)
  also have "\<dots> = n mod m"
    using mod_complement[OF m, of i] by simp
  finally show "n mod m = (j + (m - i mod m)) mod m" by simp
next
  have m: "0 < m" using assms by simp
  assume h: "n mod m = (j + (m - i mod m)) mod m"
  have "(i + n) mod m = (i + n mod m) mod m"
    by (simp add: mod_add_right_eq)
  also have "\<dots> = (i + (j + (m - i mod m))) mod m"
    using h by (simp add: mod_add_right_eq)
  also have "\<dots> = (j + (i + (m - i mod m))) mod m"
    by (simp add: add.left_commute)
  also have "\<dots> = (j mod m + (i + (m - i mod m)) mod m) mod m"
    by (simp only: mod_add_eq)
  also have "\<dots> = j"
    using mod_complement[OF m, of i] assms by simp
  finally show "(i + n) mod m = j" .
qed

lemma ceil_div:
  assumes m: "0 < (m::nat)"
  shows "(n + m - 1) div m = n div m + (if n mod m = 0 then 0 else 1)"
proof (cases "n mod m = 0")
  case True
  have "n = n mod m + n div m * m" by simp
  then have "n = n div m * m" using True by simp
  then have "n + m - 1 = (m - 1) + n div m * m" using m by simp
  then have "(n + m - 1) div m = (m - 1) div m + n div m"
    using m by (simp only: div_mult_self1)
  then show ?thesis using True m by simp
next
  case False
  define r where "r = n mod m"
  define q where "q = n div m"
  have n: "n = r + q * m" by (simp add: r_def q_def)
  have r: "0 < r" "r < m" using False m by (simp_all add: r_def)
  have "r + q * m + m - 1 = (r - 1) + (q * m + m)" using r by arith
  then have "n + m - 1 = (r - 1) + (q + 1) * m" unfolding n by (simp add: add_mult_distrib)
  then have "(n + m - 1) div m = (q + 1) + (r - 1) div m"
    using m by (simp only: div_mult_self1)
  moreover have "r - 1 < m" using r by arith
  ultimately show ?thesis using False by (simp add: q_def)
qed

lemma count_cyclic_closed:
  assumes "j < m"
  shows "count_list (map (\<lambda>k. (i + k) mod m) [0..<n]) j
         = n div m + (if (j + (m - i mod m)) mod m < n mod m then 1 else 0)"
proof (induction n)
  case 0 show ?case by simp
next
  case (Suc n)
  have m: "0 < m" using assms by simp
  let ?d = "(j + (m - i mod m)) mod m"
  have d: "?d < m" using m by simp
  have step: "count_list (map (\<lambda>k. (i + k) mod m) [0..<Suc n]) j
     = count_list (map (\<lambda>k. (i + k) mod m) [0..<n]) j + (if n mod m = ?d then 1 else 0)"
    using cyc_iff[OF assms, of i n] by simp
  show ?case
  proof (cases "Suc (n mod m) = m")
    case True
    then have e: "Suc n mod m = 0" "Suc n div m = Suc (n div m)"
      by (simp_all add: mod_Suc div_Suc)
    have "?d < n mod m \<or> ?d = n mod m" using d True by arith
    then show ?thesis unfolding step Suc.IH e by auto
  next
    case False
    then have e: "Suc n mod m = Suc (n mod m)" "Suc n div m = n div m"
      by (simp_all add: mod_Suc div_Suc)
    show ?thesis unfolding step Suc.IH e by auto
  qed
qed

lemma count_cyclic:
  assumes "j < m"
  shows "count_list (map (\<lambda>k. (i + k) mod m) [0..<n]) j \<in> {n div m, (n + m - 1) div m}"
proof -
  have m: "0 < m" using assms by simp
  show ?thesis
    unfolding count_cyclic_closed[OF assms] ceil_div[OF m]
    by auto
qed


lemma cyc_inj:
  assumes "k < m" "k' < m" "(i + k) mod m = (i + k') mod (m::nat)"
  shows "k = k'"
proof -
  have j: "(i + k') mod m < m" using assms(2) by simp
  have "k mod m = ((i + k') mod m + (m - i mod m)) mod m"
    using cyc_iff[OF j, of i k] assms(3) by simp
  moreover have "k' mod m = ((i + k') mod m + (m - i mod m)) mod m"
    using cyc_iff[OF j, of i k'] by simp
  ultimately show ?thesis using assms(1,2) by simp
qed

lemma cyc_distinct: "n \<le> m \<Longrightarrow> distinct (map (\<lambda>k. (i + k) mod (m::nat)) [0..<n])"
  by (auto simp: distinct_map inj_on_def dest: cyc_inj[rotated 2])

lemma count_list_map_inj_on:
  "inj_on g A \<Longrightarrow> set xs \<subseteq> A \<Longrightarrow> x \<in> A \<Longrightarrow> count_list (map g xs) (g x) = count_list xs x"
  by (induction xs) (auto simp: inj_on_def)

lemma length_mock_emails: "length mock_emails = 3"
  by (simp add: mock_emails_def)

lemma length_MOCK_EMAILS: "length MOCK_EMAILS = 4"
  by (simp add: MOCK_EMAILS_def)

lemma distinct_mock_emails: "distinct (map format_email mock_emails)"
  by (simp add: mock_emails_def format_email_def)

lemma distinct_MOCK_EMAILS: "distinct MOCK_EMAILS"
  by (simp add: MOCK_EMAILS_def)

lemma fetch_emails_eq:
  "i < length mock_emails \<Longrightarrow>
   fetch_emails n i =
     Inr (map (\<lambda>k. format_email (mock_emails ! ((i + k) mod length mock_emails))) [0..<n],
          (i + n) mod length mock_emails)"
proof (induction n arbitrary: i)
  case 0
  then show ?case by simp
next
  case (Suc n)
  have L: "0 < length mock_emails" using Suc.prems by (cases mock_emails) auto
  have i': "Suc i mod length mock_emails < length mock_emails" using L by simp
  have shift: "\<And>k. (Suc i mod length mock_emails + k) mod length mock_emails
                   = Suc (i + k) mod length mock_emails"
    by (simp add: mod_add_left_eq)
  show ?case
    using Suc.prems
    by (simp add: get_latest_email_def Suc.IH[OF i'] shift map_upt_Suc del: upt_Suc)
qed

lemma api_fetch_emails_eq:
  "i < length MOCK_EMAILS \<Longrightarrow>
   api_fetch_emails n i =
     Inr (map (\<lambda>k. MOCK_EMAILS ! ((i + k) mod length MOCK_EMAILS)) [0..<n],
          (i + n) mod length MOCK_EMAILS)"
proof (induction n arbitrary: i)
  case 0
  then show ?case by simp
next
  case (Suc n)
  have L: "0 < length MOCK_EMAILS" using Suc.prems by (cases MOCK_EMAILS) auto
  have i': "Suc i mod length MOCK_EMAILS < length MOCK_EMAILS" using L by simp
  have shift: "\<And>k. (Suc i mod length MOCK_EMAILS + k) mod length MOCK_EMAILS
                   = Suc (i + k) mod length MOCK_EMAILS"
    by (simp add: mod_add_left_eq)
  show ?case
    using Suc.prems
    by (simp add: api_get_latest_email_def Suc.IH[OF i'] shift map_upt_Suc del: upt_Suc)
qed

text \<open>A pool of distinct entries read cyclically from position \<open>i\<close>.\<close>

lemma cyclic_read:
  fixes pool :: "'a list" and n i :: nat
  assumes d: "distinct pool" and i: "i < length pool"
  defines "ms \<equiv> map (\<lambda>k. pool ! ((i + k) mod length pool)) [0..<n]"
  shows "\<forall>j<length pool. count_list ms (pool ! j) \<in> {n div length pool, (n + length pool - 1) div length pool}"
    and "n \<le> length pool \<longrightarrow> distinct ms"
proof -
  let ?L = "length pool"
  let ?idx = "map (\<lambda>k. (i + k) mod ?L) [0..<n]"
  have L: "0 < ?L" using i by (cases pool) auto
  have ms: "ms = map ((!) pool) ?idx" by (simp add: ms_def comp_def)
  have inj: "inj_on ((!) pool) {..<?L}"
    using d by (auto simp: inj_on_def nth_eq_iff_index_eq)
  have sub: "set ?idx \<subseteq> {..<?L}" using L by auto
  show "\<forall>j<?L. count_list ms (pool ! j) \<in> {n div ?L, (n + ?L - 1) div ?L}"
  proof (intro allI impI)
    fix j assume j: "j < ?L"
    have "count_list ms (pool ! j) = count_list ?idx j"
      unfolding ms using count_list_map_inj_on[OF inj sub, of j] j by simp
    then show "count_list ms (pool ! j) \<in> {n div ?L, (n + ?L - 1) div ?L}"
      using count_cyclic[OF j, of i n] by simp
  qed
  show "n \<le> ?L \<longrightarrow> distinct ms"
  proof
    assume n: "n \<le> ?L"
    have "distinct ?idx" using cyc_distinct[OF n] .
    moreover have "inj_on ((!) pool) (set ?idx)" using inj sub by (rule inj_on_subset)
    ultimately show "distinct ms" unfolding ms by (simp only: distinct_map) 
  qed
qed

subsection \<open>Cyclic order and cursor range\<close>

lemma mock_pool_nth:
  "j < length mock_emails \<Longrightarrow> map format_email mock_emails ! j = format_email (mock_emails ! j)"
  by simp

text \<open>
  Claim C8. From any cursor position inside the pool, \<open>n\<close> successive calls of the email
  source return the pool entries in cyclic order from that position, without gap; each
  pool entry is returned \<open>n div size\<close> or \<open>(n + size - 1) div size\<close> times (the floor
  and the ceiling of \<open>n / size\<close>); up to \<open>size\<close> calls return no entry twice; and after
  exactly \<open>size\<close> calls the cursor is back at its initial value. This holds for the pool
  of three messages of main.py and the pool of four of main_api.py.
\<close>

theorem email_source_cyclic:
  "(i < length mock_emails \<longrightarrow>
      (\<exists>ms. fetch_emails n i = Inr (ms, (i + n) mod length mock_emails)
         \<and> ms = map (\<lambda>k. format_email (mock_emails ! ((i + k) mod length mock_emails))) [0..<n]
         \<and> (\<forall>j<length mock_emails.
               count_list ms (format_email (mock_emails ! j))
                 \<in> {n div length mock_emails, (n + length mock_emails - 1) div length mock_emails})
         \<and> (n \<le> length mock_emails \<longrightarrow> distinct ms))
      \<and> (\<exists>ms. fetch_emails (length mock_emails) i = Inr (ms, i)))
   \<and> (i < length MOCK_EMAILS \<longrightarrow>
      (\<exists>ms. api_fetch_emails n i = Inr (ms, (i + n) mod length MOCK_EMAILS)
         \<and> ms = map (\<lambda>k. MOCK_EMAILS ! ((i + k) mod length MOCK_EMAILS)) [0..<n]
         \<and> (\<forall>j<length MOCK_EMAILS.
               count_list ms (MOCK_EMAILS ! j)
                 \<in> {n div length MOCK_EMAILS, (n + length MOCK_EMAILS - 1) div length MOCK_EMAILS})
         \<and> (n \<le> length MOCK_EMAILS \<longrightarrow> distinct ms))
      \<and> (\<exists>ms. api_fetch_emails (length MOCK_EMAILS) i = Inr (ms, i)))"
proof (intro conjI impI)
  assume i: "i < length mock_emails"
  let ?pool = "map format_email mock_emails"
  let ?ms = "map (\<lambda>k. format_email (mock_emails ! ((i + k) mod length mock_emails))) [0..<n]"
  have L: "0 < length mock_emails" by (simp add: length_mock_emails)
  have i': "i < length ?pool" using i by simp
  have ms: "map (\<lambda>k. ?pool ! ((i + k) mod length ?pool)) [0..<n] = ?ms"
    using L by simp
  note cr = cyclic_read[OF distinct_mock_emails i', of n, unfolded ms]
  have cnt: "\<forall>j<length mock_emails. count_list ?ms (format_email (mock_emails ! j))
                 \<in> {n div length mock_emails, (n + length mock_emails - 1) div length mock_emails}"
    using cr(1) by simp
  have dis: "n \<le> length mock_emails \<longrightarrow> distinct ?ms"
    using cr(2) by simp
  show "\<exists>ms. fetch_emails n i = Inr (ms, (i + n) mod length mock_emails)
         \<and> ms = ?ms
         \<and> (\<forall>j<length mock_emails.
               count_list ms (format_email (mock_emails ! j))
                 \<in> {n div length mock_emails, (n + length mock_emails - 1) div length mock_emails})
         \<and> (n \<le> length mock_emails \<longrightarrow> distinct ms)"
    using fetch_emails_eq[OF i, of n] cnt dis by blast
  show "\<exists>ms. fetch_emails (length mock_emails) i = Inr (ms, i)"
    using fetch_emails_eq[OF i, of "length mock_emails"] i by simp
next
  assume i: "i < length MOCK_EMAILS"
  let ?ms = "map (\<lambda>k. MOCK_EMAILS ! ((i + k) mod length MOCK_EMAILS)) [0..<n]"
  note cr = cyclic_read[OF distinct_MOCK_EMAILS i, of n]
  show "\<exists>ms. api_fetch_emails n i = Inr (ms, (i + n) mod length MOCK_EMAILS)
         \<and> ms = ?ms
         \<and> (\<forall>j<length MOCK_EMAILS.
               count_list ms (MOCK_EMAILS ! j)
                 \<in> {n div length MOCK_EMAILS, (n + length MOCK_EMAILS - 1) div length MOCK_EMAILS})
         \<and> (n \<le> length MOCK_EMAILS \<longrightarrow> distinct ms)"
    using api_fetch_emails_eq[OF i, of n] cr by blast
  show "\<exists>ms. api_fetch_emails (length MOCK_EMAILS) i = Inr (ms, i)"
    using api_fetch_emails_eq[OF i, of "length MOCK_EMAILS"] i by simp
qed

theorem email_source_cyclic_witness:
  "(1::nat) < length mock_emails
   \<and> (\<exists>ms. fetch_emails 5 1 = Inr (ms, 0)
          \<and> count_list ms (format_email (mock_emails ! 0)) \<in> {1, 2})
   \<and> (\<exists>ms. fetch_emails 3 1 = Inr (ms, 1))
   \<and> (2::nat) < length MOCK_EMAILS
   \<and> (\<exists>ms. api_fetch_emails 6 2 = Inr (ms, 0)
          \<and> count_list ms (MOCK_EMAILS ! 3) \<in> {1, 2})
   \<and> (\<exists>ms. api_fetch_emails 4 2 = Inr (ms, 2))"
proof -
  have h1: "(1::nat) < length mock_emails" by (simp add: length_mock_emails)
  have h2: "(2::nat) < length MOCK_EMAILS" by (simp add: length_MOCK_EMAILS)
  have j1: "(0::nat) < length mock_emails" by (simp add: length_mock_emails)
  have j2: "(3::nat) < length MOCK_EMAILS" by (simp add: length_MOCK_EMAILS)
  from email_source_cyclic[of 1 5] h1 obtain ms where
    m1: "fetch_emails 5 1 = Inr (ms, (1 + 5) mod length mock_emails)" and
    m2: "\<forall>j<length mock_emails. count_list ms (format_email (mock_emails ! j))
            \<in> {5 div length mock_emails, (5 + length mock_emails - 1) div length mock_emails}" and
    m3: "\<exists>ms. fetch_emails (length mock_emails) 1 = Inr (ms, 1)"
    by blast
  from email_source_cyclic[of 2 6] h2 obtain ms' where
    a1: "api_fetch_emails 6 2 = Inr (ms', (2 + 6) mod length MOCK_EMAILS)" and
    a2: "\<forall>j<length MOCK_EMAILS. count_list ms' (MOCK_EMAILS ! j)
            \<in> {6 div length MOCK_EMAILS, (6 + length MOCK_EMAILS - 1) div length MOCK_EMAILS}" and
    a3: "\<exists>ms. api_fetch_emails (length MOCK_EMAILS) 2 = Inr (ms, 2)"
    by blast
  have c1: "count_list ms (format_email (mock_emails ! 0)) \<in> {1, 2}"
    using m2 j1 by (simp add: length_mock_emails)
  have c2: "count_list ms' (MOCK_EMAILS ! 3) \<in> {1, 2}"
    using a2 j2 by (simp add: length_MOCK_EMAILS)
  have e1: "fetch_emails 5 1 = Inr (ms, 0)" using m1 by (simp add: length_mock_emails)
  have e2: "api_fetch_emails 6 2 = Inr (ms', 0)" using a1 by (simp add: length_MOCK_EMAILS)
  have e3: "\<exists>ms. fetch_emails 3 1 = Inr (ms, 1)" using m3 by (simp only: length_mock_emails)
  have e4: "\<exists>ms. api_fetch_emails 4 2 = Inr (ms, 2)" using a3 by (simp only: length_MOCK_EMAILS)
  show ?thesis using h1 h2 c1 c2 e1 e2 e3 e4 by blast
qed

text \<open>
  Claim C10. The email cursor is always inside the pool: it starts at 0, which is inside;
  a call made with the cursor inside the pool reads the pool in range (it does not raise
  \<^verbatim>\<open>IndexError\<close>) and leaves the cursor inside the pool; so any number of calls from
  the initial cursor succeeds with the cursor in range. Both variants.
\<close>

theorem email_cursor_in_range:
  "email_index_init < length mock_emails
   \<and> (\<forall>i<length mock_emails. \<exists>m i'. get_latest_email i = Inr (m, i') \<and> i' < length mock_emails)
   \<and> (\<forall>n. \<exists>ms i'. fetch_emails n email_index_init = Inr (ms, i') \<and> i' < length mock_emails)
   \<and> current_email_index_init < length MOCK_EMAILS
   \<and> (\<forall>i<length MOCK_EMAILS. \<exists>m i'. api_get_latest_email i = Inr (m, i') \<and> i' < length MOCK_EMAILS)
   \<and> (\<forall>n. \<exists>ms i'. api_fetch_emails n current_email_index_init = Inr (ms, i')
                    \<and> i' < length MOCK_EMAILS)"
proof -
  have a: "email_index_init < length mock_emails"
    by (simp add: email_index_init_def length_mock_emails)
  have b: "current_email_index_init < length MOCK_EMAILS"
    by (simp add: current_email_index_init_def length_MOCK_EMAILS)
  have c: "\<forall>i<length mock_emails. \<exists>m i'. get_latest_email i = Inr (m, i') \<and> i' < length mock_emails"
    by (simp add: get_latest_email_def length_mock_emails)
  have d: "\<forall>i<length MOCK_EMAILS. \<exists>m i'. api_get_latest_email i = Inr (m, i') \<and> i' < length MOCK_EMAILS"
    by (simp add: api_get_latest_email_def length_MOCK_EMAILS)
  have e: "\<forall>n. \<exists>ms i'. fetch_emails n email_index_init = Inr (ms, i') \<and> i' < length mock_emails"
    using fetch_emails_eq[OF a] by (simp add: length_mock_emails)
  have f: "\<forall>n. \<exists>ms i'. api_fetch_emails n current_email_index_init = Inr (ms, i')
                    \<and> i' < length MOCK_EMAILS"
    using api_fetch_emails_eq[OF b] by (simp add: length_MOCK_EMAILS)
  show ?thesis using a b c d e f by blast
qed

theorem email_cursor_in_range_witness:
  "(2::nat) < length mock_emails
   \<and> (\<exists>m i'. get_latest_email 2 = Inr (m, i') \<and> i' < length mock_emails)
   \<and> (3::nat) < length MOCK_EMAILS
   \<and> (\<exists>m i'. api_get_latest_email 3 = Inr (m, i') \<and> i' < length MOCK_EMAILS)"
proof -
  have h1: "(2::nat) < length mock_emails" by (simp add: length_mock_emails)
  have h2: "(3::nat) < length MOCK_EMAILS" by (simp add: length_MOCK_EMAILS)
  show ?thesis using h1 h2 email_cursor_in_range by blast
qed

section \<open>The bus-driven handler: what is published\<close>

subsection \<open>Urgency labels and the handler on accepted and rejected payloads\<close>

lemma topics_distinct:
  "TOPIC_DISPLAY_QUOTE \<noteq> TOPIC_DISPLAY_SUMMARY" "TOPIC_DISPLAY_QUOTE \<noteq> TOPIC_URGENCY_LED"
  "TOPIC_DISPLAY_SUMMARY \<noteq> TOPIC_DISPLAY_QUOTE" "TOPIC_DISPLAY_SUMMARY \<noteq> TOPIC_URGENCY_LED"
  "TOPIC_URGENCY_LED \<noteq> TOPIC_DISPLAY_QUOTE" "TOPIC_URGENCY_LED \<noteq> TOPIC_DISPLAY_SUMMARY"
  by (simp_all add: TOPIC_DISPLAY_QUOTE_def TOPIC_DISPLAY_SUMMARY_def TOPIC_URGENCY_LED_def)

lemma analyze_email_urgency_label:
  "analyze_email_urgency backend e \<in> set [''LOW'', ''MEDIUM'', ''HIGH'']"
  by (auto simp: analyze_email_urgency_def Let_def split: option.splits)

lemma analyze_email_urgency_nonempty: "analyze_email_urgency backend e \<noteq> []"
  using analyze_email_urgency_label[of backend e] by auto

lemma analyze_email_urgency_default:
  "call_openai_api backend (UrgencyPrompt e) 5 = None \<Longrightarrow> analyze_email_urgency backend e = ''LOW''"
  "call_openai_api backend (UrgencyPrompt e) 5 = Some s \<Longrightarrow> s = [] \<or> upper s \<notin> set [''LOW'', ''MEDIUM'', ''HIGH'']
     \<Longrightarrow> analyze_email_urgency backend e = ''LOW''"
  "call_openai_api backend (UrgencyPrompt e) 5 = Some s \<Longrightarrow> upper s \<in> set [''LOW'', ''MEDIUM'', ''HIGH'']
     \<Longrightarrow> analyze_email_urgency backend e = upper s"
  by (auto simp: analyze_email_urgency_def Let_def upper_def)

lemma process_valid:
  assumes "dict_get data ''temperature'' = Inr temp" "dict_get data ''humidity'' = Inr hum"
    and "temp \<noteq> JNull" "hum \<noteq> JNull" "i < length mock_emails"
  shows "process_sensor_data backend (Some data) i =
     (None,
      (case generate_literary_quote backend temp hum of
         Some q \<Rightarrow> if q \<noteq> [] then [(TOPIC_DISPLAY_QUOTE, q)] else []
       | None \<Rightarrow> [])
      @ (case summarize_email backend (format_email (mock_emails ! i)) of
           Some s \<Rightarrow> if s \<noteq> [] then [(TOPIC_DISPLAY_SUMMARY, s)] else []
         | None \<Rightarrow> [])
      @ [(TOPIC_URGENCY_LED, analyze_email_urgency backend (format_email (mock_emails ! i)))],
      (i + 1) mod length mock_emails)"
  using assms
  by (simp add: process_sensor_data_def process_try_def get_latest_email_def Let_def
      analyze_email_urgency_nonempty)

lemma process_rejected:
  assumes "loaded = None
     \<or> (\<exists>d. loaded = Some d \<and> (\<forall>kvs. d \<noteq> JObj kvs))
     \<or> (\<exists>kvs. loaded = Some (JObj kvs)
           \<and> (map_of kvs ''temperature'' \<in> {None, Some JNull}
              \<or> map_of kvs ''humidity'' \<in> {None, Some JNull}))"
  shows "process_sensor_data backend loaded i = (None, [], i)"
proof -
  consider (a) "loaded = None" | (b) d where "loaded = Some d" "\<forall>kvs. d \<noteq> JObj kvs"
    | (c) kvs where "loaded = Some (JObj kvs)" "map_of kvs ''temperature'' \<in> {None, Some JNull}
              \<or> map_of kvs ''humidity'' \<in> {None, Some JNull}"
    using assms by blast
  then show ?thesis
  proof cases
    case a
    then show ?thesis by (simp add: process_sensor_data_def process_try_def)
  next
    case b
    then have "dict_get d ''temperature'' = Inl AttributeError" by (cases d) auto
    then show ?thesis using b by (simp add: process_sensor_data_def process_try_def)
  next
    case c
    then show ?thesis
      by (auto simp: process_sensor_data_def process_try_def split: option.splits)
  qed
qed

subsection \<open>Malformed payloads\<close>

text \<open>
  Claim C2, as stated, at a payload with a non-numeric temperature: the payload
  \<^verbatim>\<open>{"temperature": "hot", "humidity": 60}\<close> passes the only check of the handler (both
  values are present and not \<^verbatim>\<open>None\<close>), and with a backend that answers, three messages
  are published. So a malformed payload of this kind does not produce zero publishes.
\<close>

theorem non_numeric_payload_is_processed:
  "process_sensor_data (stub_always (Content ''Warm air''))
     (Some (JObj [(''temperature'', JStr ''hot''), (''humidity'', JInt 60)])) 0
   = (None,
      [(TOPIC_DISPLAY_QUOTE, ''Warm air''), (TOPIC_DISPLAY_SUMMARY, ''Warm air''),
       (TOPIC_URGENCY_LED, ''LOW'')],
      1)"
  by (simp add: process_sensor_data_def process_try_def generate_literary_quote_def
      call_openai_api_def stub_always_def get_latest_email_def length_mock_emails
      summarize_email_def analyze_email_urgency_def strip_def is_space_def upper_def to_upper_def)

text \<open>
  Claim C2, amended. A payload is discarded without any publish, without moving the email
  cursor and without an error reaching the caller when \<^verbatim>\<open>json.loads\<close> fails on it, when it
  is valid JSON but not an object, or when it is an object in which temperature or
  humidity is missing or null. (The handler of main.py has no viewer set, so there is no
  broadcast either.) The type of the two values is not checked.
\<close>

theorem malformed_payload_discarded:
  assumes "loaded = None
     \<or> (\<exists>d. loaded = Some d \<and> (\<forall>kvs. d \<noteq> JObj kvs))
     \<or> (\<exists>kvs. loaded = Some (JObj kvs)
           \<and> (map_of kvs ''temperature'' \<in> {None, Some JNull}
              \<or> map_of kvs ''humidity'' \<in> {None, Some JNull}))"
  shows "process_sensor_data backend loaded i = (None, [], i)"
  using assms by (rule process_rejected)

theorem malformed_payload_discarded_witness:
  "process_sensor_data (stub_always (Content ''Warm air'')) None 1 = (None, [], 1)
   \<and> process_sensor_data (stub_always (Content ''Warm air'')) (Some (JArr [JInt 25, JInt 60])) 1
       = (None, [], 1)
   \<and> process_sensor_data (stub_always (Content ''Warm air''))
         (Some (JObj [(''temperature'', JNull), (''humidity'', JInt 60)])) 1 = (None, [], 1)
   \<and> process_sensor_data (stub_always (Content ''Warm air''))
         (Some (JObj [(''temperature'', JFloat 25.5)])) 1 = (None, [], 1)"
proof -
  have a: "process_sensor_data (stub_always (Content ''Warm air'')) None 1 = (None, [], 1)"
    by (rule malformed_payload_discarded) simp
  have b: "process_sensor_data (stub_always (Content ''Warm air'')) (Some (JArr [JInt 25, JInt 60])) 1
       = (None, [], 1)"
    by (rule malformed_payload_discarded) simp
  have c: "process_sensor_data (stub_always (Content ''Warm air''))
         (Some (JObj [(''temperature'', JNull), (''humidity'', JInt 60)])) 1 = (None, [], 1)"
    by (rule malformed_payload_discarded) simp
  have d: "process_sensor_data (stub_always (Content ''Warm air''))
         (Some (JObj [(''temperature'', JFloat 25.5)])) 1 = (None, [], 1)"
    by (rule malformed_payload_discarded) simp
  show ?thesis using a b c d by blast
qed

subsection \<open>Urgency on a failed call\<close>

text \<open>
  Claim C4, as stated, at a backend on which every call raises: the urgency call fails
  outright (\<^verbatim>\<open>call_openai_api\<close> returns \<^verbatim>\<open>None\<close>), and the handler still publishes
  \<open>LOW\<close> on the urgency topic; it is the only publish of that cycle.
\<close>

theorem urgency_failure_still_publishes:
  "call_openai_api (stub_always Raised) (UrgencyPrompt (format_email (mock_emails ! 0))) 5 = None
   \<and> process_sensor_data (stub_always Raised)
        (Some (JObj [(''temperature'', JFloat 25.5), (''humidity'', JFloat 60)])) 0
     = (None, [(TOPIC_URGENCY_LED, ''LOW'')], 1)"
  by (simp add: process_sensor_data_def process_try_def generate_literary_quote_def
      call_openai_api_def stub_always_def get_latest_email_def length_mock_emails
      summarize_email_def analyze_email_urgency_def)

text \<open>
  Claim C4, amended. For every accepted payload and every backend, exactly one message is
  published on the urgency topic, the value returned by \<^verbatim>\<open>analyze_email_urgency\<close>, which
  is one of \<open>LOW\<close>, \<open>MEDIUM\<close>, \<open>HIGH\<close>. When the urgency call fails outright, \<open>LOW\<close>
  is published: the failure does not skip the publish. The \<open>LOW\<close> default applies only to
  a failed call and to a successful call whose text is outside the three labels: a
  successful call whose text is, case-insensitively, one of the three labels is published
  as that label in upper case.
\<close>

theorem urgency_always_published:
  assumes "dict_get data ''temperature'' = Inr temp" "dict_get data ''humidity'' = Inr hum"
    and "temp \<noteq> JNull" "hum \<noteq> JNull" "i < length mock_emails"
  shows "\<exists>u. filter (\<lambda>p. fst p = TOPIC_URGENCY_LED)
               (fst (snd (process_sensor_data backend (Some data) i))) = [(TOPIC_URGENCY_LED, u)]
           \<and> u = analyze_email_urgency backend (format_email (mock_emails ! i))
           \<and> u \<in> set [''LOW'', ''MEDIUM'', ''HIGH'']
           \<and> (call_openai_api backend (UrgencyPrompt (format_email (mock_emails ! i))) 5 = None
                \<longrightarrow> u = ''LOW'')
           \<and> (\<forall>s. call_openai_api backend (UrgencyPrompt (format_email (mock_emails ! i))) 5 = Some s
                    \<and> upper s \<notin> set [''LOW'', ''MEDIUM'', ''HIGH''] \<longrightarrow> u = ''LOW'')
           \<and> (\<forall>s. call_openai_api backend (UrgencyPrompt (format_email (mock_emails ! i))) 5 = Some s
                    \<and> upper s \<in> set [''LOW'', ''MEDIUM'', ''HIGH''] \<longrightarrow> u = upper s)"
proof (intro exI conjI)
  let ?e = "format_email (mock_emails ! i)"
  let ?u = "analyze_email_urgency backend ?e"
  show "filter (\<lambda>p. fst p = TOPIC_URGENCY_LED)
               (fst (snd (process_sensor_data backend (Some data) i))) = [(TOPIC_URGENCY_LED, ?u)]"
    unfolding process_valid[OF assms]
    by (simp add: topics_distinct split: option.splits)
  show "?u = ?u" by (rule refl)
  show "?u \<in> set [''LOW'', ''MEDIUM'', ''HIGH'']" by (rule analyze_email_urgency_label)
  show "call_openai_api backend (UrgencyPrompt ?e) 5 = None \<longrightarrow> ?u = ''LOW''"
    by (intro impI) (rule analyze_email_urgency_default(1))
  show "\<forall>s. call_openai_api backend (UrgencyPrompt ?e) 5 = Some s
                    \<and> upper s \<notin> set [''LOW'', ''MEDIUM'', ''HIGH''] \<longrightarrow> ?u = ''LOW''"
  proof (intro allI impI)
    fix s assume "call_openai_api backend (UrgencyPrompt ?e) 5 = Some s
                    \<and> upper s \<notin> set [''LOW'', ''MEDIUM'', ''HIGH'']"
    then show "?u = ''LOW''" using analyze_email_urgency_default(2)[of backend ?e s] by simp
  qed
  show "\<forall>s. call_openai_api backend (UrgencyPrompt ?e) 5 = Some s
                    \<and> upper s \<in> set [''LOW'', ''MEDIUM'', ''HIGH''] \<longrightarrow> ?u = upper s"
  proof (intro allI impI)
    fix s assume h: "call_openai_api backend (UrgencyPrompt ?e) 5 = Some s
                    \<and> upper s \<in> set [''LOW'', ''MEDIUM'', ''HIGH'']"
    show "?u = upper s"
      using analyze_email_urgency_default(3)[OF conjunct1[OF h] conjunct2[OF h]] .
  qed
qed

theorem urgency_always_published_witness:
  "(\<exists>u. filter (\<lambda>p. fst p = TOPIC_URGENCY_LED)
          (fst (snd (process_sensor_data (stub_quote_only ''Still air'')
             (Some (JObj [(''temperature'', JInt 20), (''humidity'', JInt 70)])) 2)))
        = [(TOPIC_URGENCY_LED, u)]
      \<and> u = ''LOW'')
   \<and> (\<exists>u. filter (\<lambda>p. fst p = TOPIC_URGENCY_LED)
          (fst (snd (process_sensor_data (stub_always (Content '' Medium ''))
             (Some (JObj [(''temperature'', JInt 20), (''humidity'', JInt 70)])) 2)))
        = [(TOPIC_URGENCY_LED, u)]
      \<and> u = ''MEDIUM'')
   \<and> (\<exists>u. filter (\<lambda>p. fst p = TOPIC_URGENCY_LED)
          (fst (snd (process_sensor_data (stub_always (Content ''Very urgent''))
             (Some (JObj [(''temperature'', JInt 20), (''humidity'', JInt 70)])) 2)))
        = [(TOPIC_URGENCY_LED, u)]
      \<and> u = ''LOW'')"
proof (intro conjI)
  let ?data = "JObj [(''temperature'', JInt 20), (''humidity'', JInt 70)]"
  let ?e = "format_email (mock_emails ! 2)"
  have h1: "dict_get ?data ''temperature'' = Inr (JInt 20)" by simp
  have h2: "dict_get ?data ''humidity'' = Inr (JInt 70)" by simp
  have h3: "JInt 20 \<noteq> JNull" by simp
  have h4: "JInt 70 \<noteq> JNull" by simp
  have h5: "(2::nat) < length mock_emails" by (simp add: length_mock_emails)
  show "\<exists>u. filter (\<lambda>p. fst p = TOPIC_URGENCY_LED)
          (fst (snd (process_sensor_data (stub_quote_only ''Still air'') (Some ?data) 2)))
        = [(TOPIC_URGENCY_LED, u)] \<and> u = ''LOW''"
  proof -
    let ?b = "stub_quote_only ''Still air''"
    have c: "call_openai_api ?b (UrgencyPrompt ?e) 5 = None"
      by (simp add: call_openai_api_def)
    from urgency_always_published[OF h1 h2 h3 h4 h5, of ?b] obtain u where
      f: "filter (\<lambda>p. fst p = TOPIC_URGENCY_LED)
            (fst (snd (process_sensor_data ?b (Some ?data) 2))) = [(TOPIC_URGENCY_LED, u)]" and
      d: "call_openai_api ?b (UrgencyPrompt ?e) 5 = None \<longrightarrow> u = ''LOW''"
      by (elim exE conjE) (rule that, assumption+)
    from d c have "u = ''LOW''" by (rule mp)
    with f show ?thesis by (intro exI conjI)
  qed
  show "\<exists>u. filter (\<lambda>p. fst p = TOPIC_URGENCY_LED)
          (fst (snd (process_sensor_data (stub_always (Content '' Medium '')) (Some ?data) 2)))
        = [(TOPIC_URGENCY_LED, u)] \<and> u = ''MEDIUM''"
  proof -
    let ?b = "stub_always (Content '' Medium '')"
    have c: "call_openai_api ?b (UrgencyPrompt ?e) 5 = Some ''Medium''"
      by (simp add: call_openai_api_def stub_always_def strip_def is_space_def)
    have up: "upper ''Medium'' = ''MEDIUM''" by (simp add: upper_def to_upper_def)
    have m: "upper ''Medium'' \<in> set [''LOW'', ''MEDIUM'', ''HIGH'']" unfolding up by simp
    from urgency_always_published[OF h1 h2 h3 h4 h5, of ?b] obtain u where
      f: "filter (\<lambda>p. fst p = TOPIC_URGENCY_LED)
            (fst (snd (process_sensor_data ?b (Some ?data) 2))) = [(TOPIC_URGENCY_LED, u)]" and
      d: "\<forall>s. call_openai_api ?b (UrgencyPrompt ?e) 5 = Some s
                \<and> upper s \<in> set [''LOW'', ''MEDIUM'', ''HIGH''] \<longrightarrow> u = upper s"
      by (elim exE conjE) (rule that, assumption+)
    from spec[OF d, of "''Medium''"] conjI[OF c m] have "u = upper ''Medium''" by (rule mp)
    then have "u = ''MEDIUM''" unfolding up .
    with f show ?thesis by (intro exI conjI)
  qed
  show "\<exists>u. filter (\<lambda>p. fst p = TOPIC_URGENCY_LED)
          (fst (snd (process_sensor_data (stub_always (Content ''Very urgent'')) (Some ?data) 2)))
        = [(TOPIC_URGENCY_LED, u)] \<and> u = ''LOW''"
  proof -
    let ?b = "stub_always (Content ''Very urgent'')"
    have c: "call_openai_api ?b (UrgencyPrompt ?e) 5 = Some ''Very urgent''"
      by (simp add: call_openai_api_def stub_always_def strip_def is_space_def)
    have up: "upper ''Very urgent'' = ''VERY URGENT''" by (simp add: upper_def to_upper_def)
    have m: "upper ''Very urgent'' \<notin> set [''LOW'', ''MEDIUM'', ''HIGH'']" unfolding up by simp
    from urgency_always_published[OF h1 h2 h3 h4 h5, of ?b] obtain u where
      f: "filter (\<lambda>p. fst p = TOPIC_URGENCY_LED)
            (fst (snd (process_sensor_data ?b (Some ?data) 2))) = [(TOPIC_URGENCY_LED, u)]" and
      d: "\<forall>s. call_openai_api ?b (UrgencyPrompt ?e) 5 = Some s
                \<and> upper s \<notin> set [''LOW'', ''MEDIUM'', ''HIGH''] \<longrightarrow> u = ''LOW''"
      by (elim exE conjE) (rule that, assumption+)
    from spec[OF d, of "''Very urgent''"] conjI[OF c m] have "u = ''LOW''" by (rule mp)
    with f show ?thesis by (intro exI conjI)
  qed
qed

section \<open>The HTTP endpoint and the viewers\<close>

subsection \<open>Outcomes of the endpoint and of a broadcast\<close>

lemma api_topics_distinct:
  "TOPIC_QUOTE \<noteq> TOPIC_SENSOR_DATA" "TOPIC_SUMMARY \<noteq> TOPIC_SENSOR_DATA"
  "TOPIC_SUMMARY \<noteq> TOPIC_QUOTE" "TOPIC_URGENCY \<noteq> TOPIC_SENSOR_DATA"
  "TOPIC_URGENCY \<noteq> TOPIC_QUOTE" "TOPIC_URGENCY \<noteq> TOPIC_SUMMARY"
  by (simp_all add: TOPIC_QUOTE_def TOPIC_SUMMARY_def TOPIC_URGENCY_def TOPIC_SENSOR_DATA_def)

lemma api_process_failed:
  assumes "api_generate_literary_quote ab (temperature d) (humidity d) = Inl e
     \<or> api_summarize_email ab (MOCK_EMAILS ! current_email_index st) = Inl e
     \<or> api_analyze_email_urgency ab (MOCK_EMAILS ! current_email_index st) = Inl e"
  shows "fst (api_process_sensor_data ab d st) = HTTP_500_INTERNAL_SERVER_ERROR"
    and "mqtt_published (snd (api_process_sensor_data ab d st)) = mqtt_published st"
  using assms
  by (auto simp: api_process_sensor_data_def api_get_latest_email_def gather_def
      split: sum.splits)

lemma api_process_no_broadcast:
  "ws_sent (snd (api_process_sensor_data ab d st)) = ws_sent st"
  "active_connections (snd (api_process_sensor_data ab d st)) = active_connections st"
  by (auto simp: api_process_sensor_data_def mqtt_publish_def Let_def
      split: sum.splits prod.splits)

lemma api_process_accepted:
  assumes "api_process_sensor_data ab d st = (HTTP_202_ACCEPTED msg, st')"
  shows "\<exists>quote summary urgency.
           api_generate_literary_quote ab (temperature d) (humidity d) = Inr quote
         \<and> api_summarize_email ab (MOCK_EMAILS ! current_email_index st) = Inr summary
         \<and> api_analyze_email_urgency ab (MOCK_EMAILS ! current_email_index st) = Inr urgency
         \<and> mqtt_published st' = mqtt_published st @
              [(TOPIC_QUOTE, quote), (TOPIC_SUMMARY, summary), (TOPIC_URGENCY, urgency)]"
  using assms
  by (auto simp: api_process_sensor_data_def api_get_latest_email_def gather_def mqtt_publish_def
      Let_def split: sum.splits prod.splits if_splits)

lemma send_loop_sent:
  "(v, m) \<in> set (snd (send_loop send_ok msg i conns sent)) \<Longrightarrow> (v, m) \<in> set sent \<or> m = msg"
proof (induction send_ok msg i conns sent rule: send_loop.induct)
  case (1 send_ok msg i conns sent)
  show ?case
  proof (cases "i < length conns")
    case False
    then show ?thesis using "1.prems" by simp
  next
    case True
    show ?thesis
    proof (cases "send_ok (conns ! i)")
      case ok: True
      then have "(v, m) \<in> set (sent @ [(conns ! i, msg)]) \<or> m = msg"
        using "1.IH"(1)[OF True ok] "1.prems" True by simp
      then show ?thesis by auto
    next
      case bad: False
      then show ?thesis using "1.IH"(2)[OF True bad] "1.prems" True by simp
    qed
  qed
qed

lemma broadcast_sent:
  assumes "(v, m) \<in> set (ws_sent (broadcast_message send_ok topic payload st))"
    and "(v, m) \<notin> set (ws_sent st)"
  shows "m = build_message topic payload"
proof -
  obtain conns sent where r:
    "send_loop send_ok (build_message topic payload) 0 (active_connections st) (ws_sent st) = (conns, sent)"
    by (cases "send_loop send_ok (build_message topic payload) 0 (active_connections st) (ws_sent st)")
  have "(v, m) \<in> set sent"
    using assms r by (auto simp: broadcast_message_def Let_def split: if_splits)
  then have "(v, m) \<in> set (snd (send_loop send_ok (build_message topic payload) 0
                 (active_connections st) (ws_sent st)))"
    using r by simp
  from send_loop_sent[OF this] assms(2) show ?thesis by simp
qed

subsection \<open>Urgency label at the endpoint\<close>

text \<open>
  Claim C3 at the HTTP endpoint: \<^verbatim>\<open>analyze_email_urgency\<close> of main_api.py returns the
  stripped backend text as it is. With a backend that answers \<open>Critical\<close>, the function
  returns \<open>Critical\<close>, which is none of the three labels, and the endpoint publishes it
  on the urgency topic. (The function of the same name in main.py does normalise: see
  \<open>analyze_email_urgency_label\<close> above.)
\<close>

theorem api_urgency_not_normalised:
  "api_analyze_email_urgency (api_stub_always (Content ''Critical'')) (MOCK_EMAILS ! 0) = Inr ''Critical''
   \<and> ''Critical'' \<notin> set [''LOW'', ''MEDIUM'', ''HIGH'']
   \<and> api_process_sensor_data (api_stub_always (Content ''Critical''))
        \<lparr>temperature = 25.5, humidity = 60, light_percent = 0, nox_percent = 0\<rparr>
        \<lparr>active_connections = [], current_email_index = 0, mqtt_published = [], ws_sent = []\<rparr>
     = (HTTP_202_ACCEPTED ''Data processed successfully'',
        \<lparr>active_connections = [], current_email_index = 1,
         mqtt_published = [(TOPIC_QUOTE, ''Critical''), (TOPIC_SUMMARY, ''Critical''),
                           (TOPIC_URGENCY, ''Critical'')],
         ws_sent = []\<rparr>)"
  by (simp add: api_analyze_email_urgency_def api_call_def api_stub_always_def strip_def is_space_def
      api_process_sensor_data_def api_get_latest_email_def MOCK_EMAILS_def gather_def
      api_generate_literary_quote_def api_summarize_email_def mqtt_publish_def)

subsection \<open>Isolation of a failing enrichment call\<close>

text \<open>
  Claim C1, as stated, at the HTTP endpoint with a backend that answers the quote prompt
  and raises on the two email prompts: the quote call succeeds, the summary call fails, and
  the endpoint answers 500 with nothing published, so the quote topic receives no publish.
\<close>

theorem endpoint_failure_aborts_siblings:
  "api_generate_literary_quote (api_stub_quote_only ''Still air'') 25.5 60 = Inr ''Still air''
   \<and> api_summarize_email (api_stub_quote_only ''Still air'') (MOCK_EMAILS ! 0) = Inl CallError
   \<and> api_process_sensor_data (api_stub_quote_only ''Still air'')
        \<lparr>temperature = 25.5, humidity = 60, light_percent = 0, nox_percent = 0\<rparr>
        \<lparr>active_connections = [], current_email_index = 0, mqtt_published = [], ws_sent = []\<rparr>
     = (HTTP_500_INTERNAL_SERVER_ERROR,
        \<lparr>active_connections = [], current_email_index = 1, mqtt_published = [], ws_sent = []\<rparr>)"
  by (simp add: api_generate_literary_quote_def api_summarize_email_def api_analyze_email_urgency_def
      api_call_def strip_def is_space_def api_process_sensor_data_def api_get_latest_email_def
      length_MOCK_EMAILS gather_def)

text \<open>
  Claim C1, amended. In the bus-driven handler (main.py), on an accepted payload, each topic
  receives what its own call produced, whatever the other calls did: the quote topic
  receives exactly one publish when the quote call returned non-empty text and none
  otherwise, the same for the summary topic, and the urgency topic receives exactly one;
  no error reaches the caller. In particular a quote call that returns non-empty text is
  published once when the summary call fails, and the summary topic then receives nothing.
  In the HTTP endpoint (main_api.py), a failure of any of the three calls ends the request
  with status 500 and nothing is published.
\<close>

theorem branch_failure_isolation:
  "(dict_get data ''temperature'' = Inr temp \<and> dict_get data ''humidity'' = Inr hum
      \<and> temp \<noteq> JNull \<and> hum \<noteq> JNull \<and> i < length mock_emails \<longrightarrow>
      fst (process_sensor_data backend (Some data) i) = None
    \<and> filter (\<lambda>p. fst p = TOPIC_DISPLAY_QUOTE) (fst (snd (process_sensor_data backend (Some data) i)))
        = (case generate_literary_quote backend temp hum of
             Some q \<Rightarrow> if q \<noteq> [] then [(TOPIC_DISPLAY_QUOTE, q)] else []
           | None \<Rightarrow> [])
    \<and> filter (\<lambda>p. fst p = TOPIC_DISPLAY_SUMMARY) (fst (snd (process_sensor_data backend (Some data) i)))
        = (case summarize_email backend (format_email (mock_emails ! i)) of
             Some s \<Rightarrow> if s \<noteq> [] then [(TOPIC_DISPLAY_SUMMARY, s)] else []
           | None \<Rightarrow> [])
    \<and> filter (\<lambda>p. fst p = TOPIC_URGENCY_LED) (fst (snd (process_sensor_data backend (Some data) i)))
        = [(TOPIC_URGENCY_LED, analyze_email_urgency backend (format_email (mock_emails ! i)))])
   \<and> (api_generate_literary_quote ab (temperature d) (humidity d) = Inl e
        \<or> api_summarize_email ab (MOCK_EMAILS ! current_email_index st) = Inl e
        \<or> api_analyze_email_urgency ab (MOCK_EMAILS ! current_email_index st) = Inl e \<longrightarrow>
        fst (api_process_sensor_data ab d st) = HTTP_500_INTERNAL_SERVER_ERROR
      \<and> mqtt_published (snd (api_process_sensor_data ab d st)) = mqtt_published st)"
proof (intro conjI impI)
  assume a: "dict_get data ''temperature'' = Inr temp \<and> dict_get data ''humidity'' = Inr hum
      \<and> temp \<noteq> JNull \<and> hum \<noteq> JNull \<and> i < length mock_emails"
  then have v: "dict_get data ''temperature'' = Inr temp" "dict_get data ''humidity'' = Inr hum"
    "temp \<noteq> JNull" "hum \<noteq> JNull" "i < length mock_emails" by simp_all
  note pv = process_valid[OF v, of backend]
  show "fst (process_sensor_data backend (Some data) i) = None"
    unfolding pv by simp
  show "filter (\<lambda>p. fst p = TOPIC_DISPLAY_QUOTE) (fst (snd (process_sensor_data backend (Some data) i)))
        = (case generate_literary_quote backend temp hum of
             Some q \<Rightarrow> if q \<noteq> [] then [(TOPIC_DISPLAY_QUOTE, q)] else []
           | None \<Rightarrow> [])"
    unfolding pv by (simp add: topics_distinct split: option.splits)
  show "filter (\<lambda>p. fst p = TOPIC_DISPLAY_SUMMARY) (fst (snd (process_sensor_data backend (Some data) i)))
        = (case summarize_email backend (format_email (mock_emails ! i)) of
             Some s \<Rightarrow> if s \<noteq> [] then [(TOPIC_DISPLAY_SUMMARY, s)] else []
           | None \<Rightarrow> [])"
    unfolding pv by (simp add: topics_distinct split: option.splits)
  show "filter (\<lambda>p. fst p = TOPIC_URGENCY_LED) (fst (snd (process_sensor_data backend (Some data) i)))
        = [(TOPIC_URGENCY_LED, analyze_email_urgency backend (format_email (mock_emails ! i)))]"
    unfolding pv by (simp add: topics_distinct split: option.splits)
next
  assume f: "api_generate_literary_quote ab (temperature d) (humidity d) = Inl e
        \<or> api_summarize_email ab (MOCK_EMAILS ! current_email_index st) = Inl e
        \<or> api_analyze_email_urgency ab (MOCK_EMAILS ! current_email_index st) = Inl e"
  show "fst (api_process_sensor_data ab d st) = HTTP_500_INTERNAL_SERVER_ERROR"
    using f by (rule api_process_failed(1))
  show "mqtt_published (snd (api_process_sensor_data ab d st)) = mqtt_published st"
    using f by (rule api_process_failed(2))
qed

theorem branch_failure_isolation_witness:
  "filter (\<lambda>p. fst p = TOPIC_DISPLAY_QUOTE)
     (fst (snd (process_sensor_data (stub_quote_only ''Still air'')
        (Some (JObj [(''temperature'', JInt 20), (''humidity'', JInt 70)])) 1)))
     = [(TOPIC_DISPLAY_QUOTE, ''Still air'')]
   \<and> filter (\<lambda>p. fst p = TOPIC_DISPLAY_SUMMARY)
     (fst (snd (process_sensor_data (stub_quote_only ''Still air'')
        (Some (JObj [(''temperature'', JInt 20), (''humidity'', JInt 70)])) 1)))
     = []
   \<and> fst (api_process_sensor_data (api_stub_quote_only ''Still air'')
        \<lparr>temperature = 20, humidity = 70, light_percent = 10, nox_percent = 65\<rparr>
        \<lparr>active_connections = [], current_email_index = 2,
         mqtt_published = [(TOPIC_QUOTE, ''Earlier'')], ws_sent = []\<rparr>)
     = HTTP_500_INTERNAL_SERVER_ERROR
   \<and> mqtt_published (snd (api_process_sensor_data (api_stub_quote_only ''Still air'')
        \<lparr>temperature = 20, humidity = 70, light_percent = 10, nox_percent = 65\<rparr>
        \<lparr>active_connections = [], current_email_index = 2,
         mqtt_published = [(TOPIC_QUOTE, ''Earlier'')], ws_sent = []\<rparr>))
     = [(TOPIC_QUOTE, ''Earlier'')]"
proof -
  let ?data = "JObj [(''temperature'', JInt 20), (''humidity'', JInt 70)]"
  let ?b = "stub_quote_only ''Still air''"
  let ?ab = "api_stub_quote_only ''Still air''"
  let ?d = "\<lparr>temperature = 20, humidity = 70, light_percent = 10, nox_percent = 65\<rparr>"
  let ?st = "\<lparr>active_connections = [], current_email_index = 2,
         mqtt_published = [(TOPIC_QUOTE, ''Earlier'')], ws_sent = []\<rparr>"
  have h: "dict_get ?data ''temperature'' = Inr (JInt 20) \<and> dict_get ?data ''humidity'' = Inr (JInt 70)
      \<and> JInt 20 \<noteq> JNull \<and> JInt 70 \<noteq> JNull \<and> (1::nat) < length mock_emails"
    by (simp add: length_mock_emails)
  have q: "generate_literary_quote ?b (JInt 20) (JInt 70) = Some ''Still air''"
    by (simp add: generate_literary_quote_def call_openai_api_def strip_def is_space_def)
  have s: "summarize_email ?b (format_email (mock_emails ! 1)) = None"
    by (simp add: summarize_email_def call_openai_api_def)
  have g: "api_generate_literary_quote ?ab (temperature ?d) (humidity ?d) = Inl CallError
        \<or> api_summarize_email ?ab (MOCK_EMAILS ! current_email_index ?st) = Inl CallError
        \<or> api_analyze_email_urgency ?ab (MOCK_EMAILS ! current_email_index ?st) = Inl CallError"
    by (simp add: api_summarize_email_def api_call_def)
  note t = branch_failure_isolation[of ?data "JInt 20" "JInt 70" 1 ?b ?ab ?d CallError ?st]
  note t1 = mp[OF conjunct1[OF t] h]
  note t2 = mp[OF conjunct2[OF t] g]
  note m = conjunct1[OF conjunct2[OF t1]]
  note n = conjunct1[OF conjunct2[OF conjunct2[OF t1]]]
  note r = conjunct1[OF t2]
  note p = conjunct2[OF t2]
  have m': "filter (\<lambda>p. fst p = TOPIC_DISPLAY_QUOTE)
        (fst (snd (process_sensor_data ?b (Some ?data) 1))) = [(TOPIC_DISPLAY_QUOTE, ''Still air'')]"
    unfolding m q by simp
  have n': "filter (\<lambda>p. fst p = TOPIC_DISPLAY_SUMMARY)
        (fst (snd (process_sensor_data ?b (Some ?data) 1))) = []"
    unfolding n s by simp
  have p': "mqtt_published (snd (api_process_sensor_data ?ab ?d ?st)) = [(TOPIC_QUOTE, ''Earlier'')]"
    unfolding p by simp
  show ?thesis using m' n' r p' by (intro conjI)
qed

subsection \<open>Broadcast with a failing viewer\<close>

text \<open>
  Claim C5 at two viewers, the first of which fails: the loop removes the failing viewer 0
  from the list it is iterating over, the remaining viewer 1 moves to position 0, the
  iterator goes on at position 1 and stops. Viewer 1 was registered at the start of the
  call and receives nothing: the delivery log stays empty.
\<close>

theorem broadcast_skips_viewer_after_failure:
  "broadcast_message (send_ok_except 0) TOPIC_QUOTE [(''quote'', JStr ''Still air'')]
     \<lparr>active_connections = [0, 1], current_email_index = 0, mqtt_published = [], ws_sent = []\<rparr>
   = \<lparr>active_connections = [1], current_email_index = 0, mqtt_published = [], ws_sent = []\<rparr>"
  by (simp add: broadcast_message_def build_message_def api_topics_distinct send_ok_except_def)

subsection \<open>Handling a payload and the viewers\<close>

text \<open>
  Claim C6, as stated, at a valid payload with one viewer connected and a backend that
  answers: the endpoint answers 202, publishes three messages on the bus, and delivers
  nothing to the viewer. No sensor event is broadcast.
\<close>

theorem valid_payload_not_broadcast:
  "api_process_sensor_data (api_stub_always (Content ''Still air''))
        \<lparr>temperature = 25.5, humidity = 60, light_percent = 0, nox_percent = 0\<rparr>
        \<lparr>active_connections = [0], current_email_index = 0, mqtt_published = [], ws_sent = []\<rparr>
     = (HTTP_202_ACCEPTED ''Data processed successfully'',
        \<lparr>active_connections = [0], current_email_index = 1,
         mqtt_published = [(TOPIC_QUOTE, ''Still air''), (TOPIC_SUMMARY, ''Still air''),
                           (TOPIC_URGENCY, ''Still air'')],
         ws_sent = []\<rparr>)"
  by (simp add: api_analyze_email_urgency_def api_call_def api_stub_always_def strip_def is_space_def
      api_process_sensor_data_def api_get_latest_email_def length_MOCK_EMAILS gather_def
      api_generate_literary_quote_def api_summarize_email_def mqtt_publish_def)

text \<open>
  Claim C6, amended. Handling a valid sensor payload issues no broadcast to the viewer set:
  the endpoint never calls \<^verbatim>\<open>broadcast_message\<close>, so for every payload, backend and state
  the delivery log and the viewer list are the same after handling as before. (The handler
  of main.py has no viewer set at all.)
\<close>

theorem handling_issues_no_broadcast:
  "ws_sent (snd (api_process_sensor_data ab d st)) = ws_sent st
   \<and> active_connections (snd (api_process_sensor_data ab d st)) = active_connections st"
  using api_process_no_broadcast[of ab d st] by (intro conjI)

subsection \<open>Publishes before the success response\<close>

text \<open>
  Claim C7. Whenever the endpoint returns its success response (202), all three enrichment
  calls returned a result, and the state it returns with has the three results appended
  to the publish log, quote then summary then urgency: the calls to
  \<^verbatim>\<open>mqtt_client.publish\<close> were made before the response.
\<close>

theorem endpoint_publishes_before_success:
  assumes "api_process_sensor_data ab d st = (HTTP_202_ACCEPTED msg, st')"
  shows "\<exists>quote summary urgency.
           api_generate_literary_quote ab (temperature d) (humidity d) = Inr quote
         \<and> api_summarize_email ab (MOCK_EMAILS ! current_email_index st) = Inr summary
         \<and> api_analyze_email_urgency ab (MOCK_EMAILS ! current_email_index st) = Inr urgency
         \<and> mqtt_published st' = mqtt_published st @
              [(TOPIC_QUOTE, quote), (TOPIC_SUMMARY, summary), (TOPIC_URGENCY, urgency)]"
  using assms by (rule api_process_accepted)

theorem endpoint_publishes_before_success_witness:
  "api_process_sensor_data (api_stub_always (Content '' HIGH ''))
        \<lparr>temperature = 20, humidity = 70, light_percent = 10, nox_percent = 65\<rparr>
        \<lparr>active_connections = [], current_email_index = 3,
         mqtt_published = [(TOPIC_QUOTE, ''Earlier'')], ws_sent = []\<rparr>
     = (HTTP_202_ACCEPTED ''Data processed successfully'',
        \<lparr>active_connections = [], current_email_index = 0,
         mqtt_published = [(TOPIC_QUOTE, ''Earlier''), (TOPIC_QUOTE, ''HIGH''),
                           (TOPIC_SUMMARY, ''HIGH''), (TOPIC_URGENCY, ''HIGH'')],
         ws_sent = []\<rparr>)
   \<and> (\<exists>quote summary urgency.
         mqtt_published \<lparr>active_connections = [], current_email_index = 0,
         mqtt_published = [(TOPIC_QUOTE, ''Earlier''), (TOPIC_QUOTE, ''HIGH''),
                           (TOPIC_SUMMARY, ''HIGH''), (TOPIC_URGENCY, ''HIGH'')],
         ws_sent = []\<rparr>
         = mqtt_published \<lparr>active_connections = [], current_email_index = 3,
              mqtt_published = [(TOPIC_QUOTE, ''Earlier'')], ws_sent = []\<rparr>
           @ [(TOPIC_QUOTE, quote), (TOPIC_SUMMARY, summary), (TOPIC_URGENCY, urgency)])"
proof -
  let ?ab = "api_stub_always (Content '' HIGH '')"
  let ?d = "\<lparr>temperature = 20, humidity = 70, light_percent = 10, nox_percent = 65\<rparr>"
  let ?st = "\<lparr>active_connections = [], current_email_index = 3,
         mqtt_published = [(TOPIC_QUOTE, ''Earlier'')], ws_sent = []\<rparr>"
  let ?st' = "\<lparr>active_connections = [], current_email_index = 0,
         mqtt_published = [(TOPIC_QUOTE, ''Earlier''), (TOPIC_QUOTE, ''HIGH''),
                           (TOPIC_SUMMARY, ''HIGH''), (TOPIC_URGENCY, ''HIGH'')],
         ws_sent = []\<rparr>"
  have h: "api_process_sensor_data ?ab ?d ?st = (HTTP_202_ACCEPTED ''Data processed successfully'', ?st')"
    by (simp add: api_analyze_email_urgency_def api_call_def api_stub_always_def strip_def is_space_def
      api_process_sensor_data_def api_get_latest_email_def length_MOCK_EMAILS gather_def
      api_generate_literary_quote_def api_summarize_email_def mqtt_publish_def)
  from endpoint_publishes_before_success[OF h] obtain quote summary urgency where
    e: "mqtt_published ?st' = mqtt_published ?st @
              [(TOPIC_QUOTE, quote), (TOPIC_SUMMARY, summary), (TOPIC_URGENCY, urgency)]"
    by (elim exE conjE) (rule that)
  have "\<exists>quote summary urgency. mqtt_published ?st' = mqtt_published ?st @
              [(TOPIC_QUOTE, quote), (TOPIC_SUMMARY, summary), (TOPIC_URGENCY, urgency)]"
    using e by (intro exI)
  with h show ?thesis by (intro conjI)
qed

subsection \<open>Fields of a display message\<close>

text \<open>
  Claim C9, as stated, at a quote-topic broadcast whose payload has no \<open>quote\<close> entry:
  the viewer is sent a display message with both fields empty.
\<close>

theorem display_message_both_fields_empty:
  "broadcast_message send_ok_all TOPIC_QUOTE []
     \<lparr>active_connections = [0], current_email_index = 0, mqtt_published = [], ws_sent = []\<rparr>
   = \<lparr>active_connections = [0], current_email_index = 0, mqtt_published = [],
      ws_sent = [(0, [(''type'', JStr ''display_message''), (''quote'', JStr []),
                      (''summary'', JStr [])])]\<rparr>"
  by (simp add: broadcast_message_def build_message_def api_topics_distinct send_ok_all_def
      payload_get_def)

text \<open>
  Claim C9, amended. Every message delivered by a broadcast for the quote topic or the
  summary topic is a display message with at least one of its two fields empty: for the
  quote topic the summary is empty and the quote is the payload's \<open>quote\<close> entry, for the
  summary topic the quote is empty and the summary is the payload's \<open>summary\<close> entry. So
  never both are non-empty; both are empty when the payload lacks the entry or carries an
  empty string.
\<close>

theorem display_message_one_field_empty:
  assumes "(v, m) \<in> set (ws_sent (broadcast_message send_ok topic payload st))"
    and "(v, m) \<notin> set (ws_sent st)"
    and "topic = TOPIC_QUOTE \<or> topic = TOPIC_SUMMARY"
  shows "map_of m ''type'' = Some (JStr ''display_message'')
       \<and> (topic = TOPIC_QUOTE \<longrightarrow>
            map_of m ''quote'' = Some (payload_get payload ''quote'' (JStr []))
          \<and> map_of m ''summary'' = Some (JStr []))
       \<and> (topic = TOPIC_SUMMARY \<longrightarrow>
            map_of m ''quote'' = Some (JStr [])
          \<and> map_of m ''summary'' = Some (payload_get payload ''summary'' (JStr [])))
       \<and> (map_of m ''quote'' = Some (JStr []) \<or> map_of m ''summary'' = Some (JStr []))"
proof -
  have m: "m = build_message topic payload"
    using assms(1,2) by (rule broadcast_sent)
  from assms(3) show ?thesis
  proof
    assume t: "topic = TOPIC_QUOTE"
    show ?thesis unfolding m t
      by (simp add: build_message_def api_topics_distinct api_topics_distinct[symmetric])
  next
    assume t: "topic = TOPIC_SUMMARY"
    show ?thesis unfolding m t
      by (simp add: build_message_def api_topics_distinct api_topics_distinct[symmetric])
  qed
qed

theorem display_message_one_field_empty_witness:
  "(0, [(''type'', JStr ''display_message''), (''quote'', JStr ''Still air''),
        (''summary'', JStr [])])
     \<in> set (ws_sent (broadcast_message send_ok_all TOPIC_QUOTE [(''quote'', JStr ''Still air'')]
          \<lparr>active_connections = [0], current_email_index = 0, mqtt_published = [],
           ws_sent = []\<rparr>))
   \<and> map_of [(''type'', JStr ''display_message''), (''quote'', JStr ''Still air''),
           (''summary'', JStr [])] ''quote'' = Some (JStr ''Still air'')
   \<and> map_of [(''type'', JStr ''display_message''), (''quote'', JStr ''Still air''),
           (''summary'', JStr [])] ''summary'' = Some (JStr [])"
proof -
  let ?st = "\<lparr>active_connections = [0], current_email_index = 0, mqtt_published = [], ws_sent = []\<rparr>"
  let ?m = "[(''type'', JStr ''display_message''), (''quote'', JStr ''Still air''),
           (''summary'', JStr [])]"
  have b: "broadcast_message send_ok_all TOPIC_QUOTE [(''quote'', JStr ''Still air'')] ?st
           = ?st\<lparr>ws_sent := [(0, ?m)]\<rparr>"
    by (simp add: broadcast_message_def build_message_def api_topics_distinct send_ok_all_def
      payload_get_def)
  have h1: "(0, ?m) \<in> set (ws_sent (broadcast_message send_ok_all TOPIC_QUOTE
                 [(''quote'', JStr ''Still air'')] ?st))"
    unfolding b by simp
  have h2: "(0, ?m) \<notin> set (ws_sent ?st)" by simp
  have h3: "TOPIC_QUOTE = TOPIC_QUOTE \<or> TOPIC_QUOTE = TOPIC_SUMMARY" by simp
  note t = display_message_one_field_empty[OF h1 h2 h3]
  note q = mp[OF conjunct1[OF conjunct2[OF t]] refl]
  have p: "payload_get [(''quote'', JStr ''Still air'')] ''quote'' (JStr []) = JStr ''Still air''"
    by (simp add: payload_get_def)
  have q': "map_of ?m ''quote'' = Some (JStr ''Still air'') \<and> map_of ?m ''summary'' = Some (JStr [])"
    using q unfolding p .
  show ?thesis using h1 q' by (intro conjI) (simp_all only:)
qed

end
